theory Spec2Isabelle
  imports Complex_Main "HOL-Library.AList" "HOL-Library.Sublist" "HOL-Library.Word"
begin

section \<open>Huffman compression (Huffman.py): the program\<close>

text \<open>
  The class \<open>HuffmanCode\<close> of \<^verbatim>\<open>src/Huffman.py\<close> works on Python strings throughout: a
  byte of the file is the string of its eight binary digits, a codeword under
  construction is a string that starts with a placeholder name \<open>alphaN__\<close>, and dictionaries
  are Python dicts, which keep their keys in insertion order. The model keeps all of that:
  strings are \<open>char list\<close>, a dict is an association list that is updated in place or
  extended at the end (\<open>AList.update\<close>), and every exception the code can raise is a value
  of \<open>error\<close>.
\<close>

subsection \<open>Exceptions\<close>

datatype error =
    IndexError        \<comment> \<open>a list index out of range\<close>
  | KeyError          \<comment> \<open>a dict key that is absent\<close>
  | CreationError     \<comment> \<open>bitstring: a value that does not fit the BitArray asked for\<close>
  | InterpretError    \<comment> \<open>bitstring: \<open>.uint\<close> of a BitArray of length zero\<close>
  | AssertionError    \<comment> \<open>the \<open>assert\<close> of \<open>Encode\<close>\<close>

subsection \<open>The bitstring library: binary digits of unsigned integers\<close>

text \<open>\<open>bin_of_nat w n\<close> is the string of the \<open>w\<close> low binary digits of \<open>n\<close>, most significant first.\<close>

fun bin_of_nat :: "nat \<Rightarrow> nat \<Rightarrow> string" where
  "bin_of_nat 0 n = []"
| "bin_of_nat (Suc w) n = bin_of_nat w (n div 2) @ [if n mod 2 = 1 then CHR ''1'' else CHR ''0'']"

text \<open>\<open>BitArray(uint = v, length = 8).bin\<close>: the library refuses a value outside \<open>0..255\<close>.\<close>

definition BitArray_uint_bin :: "int \<Rightarrow> error + string" where
  "BitArray_uint_bin v = (if 0 \<le> v \<and> v < 256 then Inr (bin_of_nat 8 (nat v)) else Inl CreationError)"

text \<open>\<open>BitArray(byte).bin\<close> for one byte read from the file.\<close>

definition BitArray_byte_bin :: "8 word \<Rightarrow> string" where
  "BitArray_byte_bin b = bin_of_nat 8 (unat b)"

definition is_bit :: "char \<Rightarrow> bool" where
  "is_bit c = (c = CHR ''0'' \<or> c = CHR ''1'')"

definition nat_of_bin :: "string \<Rightarrow> nat" where
  "nat_of_bin s = foldl (\<lambda>a c. 2 * a + (if c = CHR ''1'' then 1 else 0)) 0 s"

text \<open>
  \<open>BitArray(bin = s).uint\<close> for a string \<open>s\<close> of the characters 0 and 1 (the only strings
  the program passes): the empty BitArray has no integer value and the library raises
  InterpretError. A string with another character is no binary literal (CreationError).
\<close>

definition BitArray_bin_uint :: "string \<Rightarrow> error + nat" where
  "BitArray_bin_uint s =
     (if \<not> list_all is_bit s then Inl CreationError
      else if s = [] then Inl InterpretError
      else Inr (nat_of_bin s))"

subsection \<open>The placeholder names and the regular expression\<close>

text \<open>Python's \<open>f'{i}'\<close> for a non-negative integer: its decimal digits.\<close>

fun str_nat :: "nat \<Rightarrow> string" where
  "str_nat n = (if n < 10 then [''0123456789'' ! n]
                else str_nat (n div 10) @ [''0123456789'' ! (n mod 10)])"

declare str_nat.simps [simp del]

text \<open>
  \<open>__init__\<close> assigns \<open>self.pat\<close> and \<open>self.codesnames\<close>; no method assigns them again,
  so they are constants of the model. \<open>codesnames\<close> is the list \<open>alpha0__ .. alpha255__\<close>.
\<close>

definition codesnames :: "string list" where
  "codesnames = map (\<lambda>i. ''alpha'' @ str_nat i @ ''__'') [0..<256]"

definition is_digit :: "char \<Rightarrow> bool" where
  "is_digit c = (c \<in> set ''0123456789'')"

text \<open>
  \<open>re.match(self.pat, s)\<close> with \<open>self.pat = '(alpha\d+__)'\<close>: the string must start with
  \<open>alpha\<close>, then one or more digits, then two underscores. The digits are matched greedily
  and giving one back never helps, since what follows would be a digit. The result is the
  group matched and the rest of the string.
\<close>

definition re_match_pat :: "string \<Rightarrow> (string \<times> string) option" where
  "re_match_pat s =
     (if take 5 s = ''alpha'' then
        (let ds = takeWhile is_digit (drop 5 s); r = dropWhile is_digit (drop 5 s)
         in if ds \<noteq> [] \<and> take 2 r = ''__'' then Some (''alpha'' @ ds @ ''__'', drop 2 r) else None)
      else None)"

lemma re_match_pat_shorter: "re_match_pat s = Some (g, r) \<Longrightarrow> length r < length s"
proof -
  assume a: "re_match_pat s = Some (g, r)"
  then have r: "r = drop 2 (dropWhile is_digit (drop 5 s))" and t: "take 5 s = ''alpha''"
    by (auto simp: re_match_pat_def Let_def split: if_splits)
  have "length (dropWhile is_digit (drop 5 s)) \<le> length (drop 5 s)"
    by (rule length_dropWhile_le)
  moreover have "5 \<le> length s"
  proof -
    from t have "length (take 5 s) = 5" by simp
    then show ?thesis by simp
  qed
  ultimately show ?thesis using r by simp
qed

text \<open>
  \<open>re.sub(self.pat, repl, s)\<close>: every match of the pattern in \<open>s\<close>, scanning from the left,
  is replaced by \<open>repl\<close>; the text put in is not scanned again. (The replacement strings of
  the program hold letters, digits and underscores only, so Python's escapes in \<open>repl\<close>
  play no part.)
\<close>

function re_sub_pat :: "string \<Rightarrow> string \<Rightarrow> string" where
  "re_sub_pat repl [] = []"
| "re_sub_pat repl (c # cs) =
     (case re_match_pat (c # cs) of
        Some (g, r) \<Rightarrow> repl @ re_sub_pat repl r
      | None \<Rightarrow> c # re_sub_pat repl cs)"
  by pat_completeness auto
termination
  by (relation "measure (\<lambda>(repl, s). length s)") (auto dest: re_match_pat_shorter)

subsection \<open>Frequencies\<close>

text \<open>\<open>read_bytes\<close>: the file, byte by byte, each as its string of eight binary digits.\<close>

definition read_bytes :: "8 word list \<Rightarrow> string list" where
  "read_bytes file = map BitArray_byte_bin file"

text \<open>
  \<open>list.sort(key = itemgetter(0), reverse = True)\<close>: descending by the first component and
  stable (elements with equal keys keep their order), which is a stable ascending sort of
  the reversed list, reversed.
\<close>

definition sort_desc :: "('f::linorder \<times> 'a) list \<Rightarrow> ('f \<times> 'a) list" where
  "sort_desc xs = rev (sort_key fst (rev xs))"

text \<open>
  The frequencies are Python floats: a count divided by the total, and later sums of such
  quotients. The model takes the type \<open>'f\<close> of frequencies as any linear order with an
  addition, and the division of two integers into a frequency as the parameter \<open>divf\<close>;
  nothing below depends on what the two operations compute. (The division is evaluated
  only for the entries of a non-empty list, whose total is positive.)
\<close>

definition make_frequency_tuples :: "(nat \<Rightarrow> nat \<Rightarrow> 'f::linorder) \<Rightarrow> string list \<Rightarrow> ('f \<times> string) list" where
  "make_frequency_tuples divf binary_list =
     (let counts = fold (\<lambda>x counts.
                      AList.update x ((case map_of counts x of None \<Rightarrow> 0 | Some c \<Rightarrow> c) + 1) counts)
                    binary_list [];
          freqs = map (\<lambda>(k, v). (v, k)) counts;
          total_elements = sum_list (map fst freqs);
          freqs = map (\<lambda>i. (divf (fst i) total_elements, snd i)) freqs
      in sort_desc freqs)"

subsection \<open>The code table\<close>

text \<open>
  One step of the loop of \<open>update_dictionary\<close>, for the key \<open>i\<close>: when the value of \<open>i\<close>
  starts with a placeholder that is itself a key, the placeholder is replaced by the value
  of that key as it is now. (\<open>i\<close> runs over the keys of \<open>cd\<close>, so the first case has a value.)
\<close>

definition update_entry :: "string \<Rightarrow> (string \<times> string) list \<Rightarrow> (string \<times> string) list" where
  "update_entry i cd =
     (case map_of cd i of
        None \<Rightarrow> cd
      | Some v \<Rightarrow>
          (case re_match_pat v of
             None \<Rightarrow> cd
           | Some (g, r) \<Rightarrow>
               (case map_of cd g of
                  None \<Rightarrow> cd
                | Some w \<Rightarrow> AList.update i (re_sub_pat w v) cd)))"

definition update_dictionary :: "(string \<times> string) list \<Rightarrow> (string \<times> string) list" where
  "update_dictionary cd = fold update_entry (map fst cd) cd"

text \<open>
  The \<open>while\<close> loop of \<open>create_encoder_dictionary\<close>, on its three variables. Each round
  shortens \<open>freqs\<close> by one entry. \<open>codesnames[ptr]\<close> raises IndexError beyond the list.
\<close>

function merge_loop ::
  "('f::{linorder,plus} \<times> string) list \<Rightarrow> (string \<times> string) list \<Rightarrow> nat
     \<Rightarrow> error + (('f \<times> string) list \<times> (string \<times> string) list)" where
  "merge_loop freqs codes ptr =
     (if length freqs > 2 then
        (let last = drop (length freqs - 2) freqs;
             top = take (length freqs - 2) freqs;
             new_freq = fst (last ! 0) + fst (last ! 1)
         in if ptr < length codesnames then
              (let codes = AList.update (snd (last ! 0)) (codesnames ! ptr @ ''0'') codes;
                   codes = AList.update (snd (last ! 1)) (codesnames ! ptr @ ''1'') codes;
                   freqs = sort_desc (top @ [(new_freq, codesnames ! ptr)]);
                   codes = update_dictionary codes
               in merge_loop freqs codes (ptr + 1))
            else Inl IndexError)
      else Inr (freqs, codes))"
  by pat_completeness auto
termination
  by (relation "measure (\<lambda>(freqs, codes, ptr). length freqs)") (auto simp: sort_desc_def)

declare merge_loop.simps [simp del]

definition create_encoder_dictionary ::
  "('f::{linorder,plus} \<times> string) list \<Rightarrow> error + (string \<times> string) list" where
  "create_encoder_dictionary freqs0 =
     (case merge_loop freqs0 [] 0 of
        Inl e \<Rightarrow> Inl e
      | Inr (freqs, codes) \<Rightarrow>
          if length freqs < 1 then Inl IndexError
          else
            (let codes = AList.update (snd (freqs ! 0)) ''0'' codes
             in if length freqs < 2 then Inl IndexError
                else
                  (let codes = AList.update (snd (freqs ! 1)) ''1'' codes;
                       codes = update_dictionary codes;
                       final_codes = fold (\<lambda>(i, v) final_codes.
                                        if re_match_pat i = None then AList.update i v final_codes
                                        else final_codes)
                                      codes []
                   in Inr final_codes)))"

subsection \<open>Header and encoder\<close>

text \<open>The loop of \<open>make_header\<close> over the entries of the table, in the order of the dict.\<close>

fun make_header_entries :: "(string \<times> string) list \<Rightarrow> string \<Rightarrow> error + string" where
  "make_header_entries [] header = Inr header"
| "make_header_entries ((i, code) # rest) header =
     (case BitArray_uint_bin (int (length code)) of
        Inl e \<Rightarrow> Inl e
      | Inr n_bits \<Rightarrow> make_header_entries rest (header @ i @ n_bits @ code))"

definition make_header :: "string \<Rightarrow> (string \<times> string) list \<Rightarrow> error + string" where
  "make_header bin_string encoder_dict =
     (case BitArray_uint_bin (int (length encoder_dict) - 1) of
        Inl e \<Rightarrow> Inl e
      | Inr n_symbols \<Rightarrow> make_header_entries encoder_dict n_symbols)"

text \<open>The loop \<open>for i in bitlist: orig_encoded_string += encoder_dict[i]\<close>.\<close>

fun encode_symbols :: "(string \<times> string) list \<Rightarrow> string list \<Rightarrow> string \<Rightarrow> error + string" where
  "encode_symbols encoder_dict [] orig_encoded_string = Inr orig_encoded_string"
| "encode_symbols encoder_dict (i # bitlist) orig_encoded_string =
     (case map_of encoder_dict i of
        None \<Rightarrow> Inl KeyError
      | Some code \<Rightarrow> encode_symbols encoder_dict bitlist (orig_encoded_string @ code))"

text \<open>
  The attributes that \<open>Encode\<close> stores in the instance. A fresh instance has none of them.
\<close>

record 'f HuffmanCode =
  orig_encoded_string :: "string option"
  freqs :: "('f \<times> string) list option"
  encoder_dict :: "(string \<times> string) list option"
  bitlist :: "string list option"
  encoded_string :: "string option"

definition HuffmanCode_init :: "'f HuffmanCode" where
  "HuffmanCode_init =
     \<lparr>orig_encoded_string = None, freqs = None, encoder_dict = None, bitlist = None,
      encoded_string = None\<rparr>"

text \<open>
  \<open>Encode\<close> returns the encoded string, or the exception raised, together with the instance
  as the call leaves it: the attributes are assigned only at the end, so a call that raises
  leaves the instance as it was. \<open>file\<close> is the content of the file read.
\<close>

definition Encode ::
  "(nat \<Rightarrow> nat \<Rightarrow> 'f::{linorder,plus}) \<Rightarrow> 'f HuffmanCode \<Rightarrow> 8 word list
     \<Rightarrow> (error + string) \<times> 'f HuffmanCode" where
  "Encode divf self file =
     (let bl = read_bytes file;
          fr = make_frequency_tuples divf bl
      in case create_encoder_dictionary fr of
           Inl e \<Rightarrow> (Inl e, self)
         | Inr ed \<Rightarrow>
             (case encode_symbols ed bl [] of
                Inl e \<Rightarrow> (Inl e, self)
              | Inr orig \<Rightarrow>
                  (case make_header orig ed of
                     Inl e \<Rightarrow> (Inl e, self)
                   | Inr header \<Rightarrow>
                       (let es = header @ orig;
                            n_pad = 8 - length es mod 8
                        in case BitArray_uint_bin (int n_pad) of
                             Inl e \<Rightarrow> (Inl e, self)
                           | Inr pad_byte \<Rightarrow>
                               (let es = pad_byte @ es @ replicate n_pad (CHR ''0'')
                                in if length es mod 8 \<noteq> 0 then (Inl AssertionError, self)
                                   else (Inr es,
                                         self\<lparr>orig_encoded_string := Some orig, freqs := Some fr,
                                              encoder_dict := Some ed, bitlist := Some bl,
                                              encoded_string := Some es\<rparr>))))))"

subsection \<open>Decoder\<close>

text \<open>
  The first loop of \<open>Decode\<close>, \<open>for _ in range(n_symb)\<close>, on the variables
  \<open>bin_to_decompress\<close>, \<open>code2symb\<close> and \<open>head\<close>. Python's slices stop at the end of the
  string without an error; only \<open>.uint\<close> of an empty slice raises.
\<close>

fun Decode_header ::
  "nat \<Rightarrow> string \<Rightarrow> (string \<times> string) list \<Rightarrow> string
     \<Rightarrow> error + (string \<times> (string \<times> string) list \<times> string)" where
  "Decode_header 0 bin_to_decompress code2symb head = Inr (bin_to_decompress, code2symb, head)"
| "Decode_header (Suc n) bin_to_decompress code2symb head =
     (let symb = take 8 bin_to_decompress
      in case BitArray_bin_uint (take 8 (drop 8 bin_to_decompress)) of
           Inl e \<Rightarrow> Inl e
         | Inr n_bits \<Rightarrow>
             (let code = take n_bits (drop 16 bin_to_decompress)
              in Decode_header n (drop (16 + n_bits) bin_to_decompress)
                   (AList.update code symb code2symb)
                   (head @ take (16 + n_bits) bin_to_decompress)))"

text \<open>
  The second loop, over the bits of the payload, on the variables \<open>symb_being_decoded\<close> and
  \<open>decoded_string\<close>.
\<close>

fun Decode_scan :: "(string \<times> string) list \<Rightarrow> string \<Rightarrow> string \<times> string \<Rightarrow> string \<times> string" where
  "Decode_scan code2symb [] (symb_being_decoded, decoded_string) =
     (symb_being_decoded, decoded_string)"
| "Decode_scan code2symb (i # bits) (symb_being_decoded, decoded_string) =
     (case map_of code2symb (symb_being_decoded @ [i]) of
        Some symb \<Rightarrow> Decode_scan code2symb bits ([], decoded_string @ symb)
      | None \<Rightarrow> Decode_scan code2symb bits (symb_being_decoded @ [i], decoded_string))"

definition Decode :: "string \<Rightarrow> error + string" where
  "Decode encoded_bin_string =
     (case BitArray_bin_uint (take 8 encoded_bin_string) of
        Inl e \<Rightarrow> Inl e
      | Inr n_pad \<Rightarrow>
          (case BitArray_bin_uint (take 8 (drop 8 encoded_bin_string)) of
             Inl e \<Rightarrow> Inl e
           | Inr n \<Rightarrow>
               (let n_symb = n + 1;
                    head = take 16 encoded_bin_string
                in case Decode_header n_symb (drop 16 encoded_bin_string) [] head of
                     Inl e \<Rightarrow> Inl e
                   | Inr (bin_to_decompress, code2symb, head) \<Rightarrow>
                       (let bin_to_decompress =
                              (if n_pad > 0
                               then take (length bin_to_decompress - n_pad) bin_to_decompress
                               else bin_to_decompress)
                        in Inr (snd (Decode_scan code2symb bin_to_decompress ([], [])))))))"

section \<open>Properties\<close>

text \<open>
  Closed statements need one concrete division: \<open>exact_div\<close> is the exact quotient, which
  Python's float division equals on the small counts used below (halves and quarters).
\<close>

definition exact_div :: "nat \<Rightarrow> nat \<Rightarrow> rat" where
  "exact_div c t = of_nat c / of_nat t"

subsection \<open>The empty file\<close>

lemma merge_loop_short: "length fr \<le> 2 \<Longrightarrow> merge_loop fr codes ptr = Inr (fr, codes)"
  by (simp add: merge_loop.simps)

lemma make_frequency_tuples_Nil: "make_frequency_tuples divf [] = []"
  by (simp add: make_frequency_tuples_def sort_desc_def)

lemma create_encoder_dictionary_Nil: "create_encoder_dictionary [] = Inl IndexError"
  by (simp add: create_encoder_dictionary_def merge_loop_short)

text \<open>
  C4, as stated, fails: on the empty file \<open>Encode\<close> is not rejected by a dedicated check and
  returns no output; the exception is the IndexError of \<open>freqs[0]\<close>.
\<close>

theorem Encode_empty_incidental_error:
  "fst (Encode exact_div HuffmanCode_init []) = Inl IndexError"
  by (simp add: Encode_def read_bytes_def make_frequency_tuples_Nil create_encoder_dictionary_Nil)

text \<open>
  C4, amended: for the empty file the frequency list is empty, the table builder raises
  IndexError when it reads \<open>freqs[0]\<close>, and \<open>Encode\<close> ends with that exception before any
  header is made, leaving the instance unchanged. The code has no check for an empty file.
\<close>

theorem Encode_empty:
  "make_frequency_tuples divf (read_bytes []) = []
   \<and> create_encoder_dictionary (make_frequency_tuples divf (read_bytes [])) = Inl IndexError
   \<and> Encode divf self [] = (Inl IndexError, self)"
  by (simp add: Encode_def read_bytes_def make_frequency_tuples_Nil create_encoder_dictionary_Nil)

subsection \<open>Independence of the calls\<close>

lemma Encode_result_independent: "fst (Encode divf self file) = fst (Encode divf self' file)"
  by (simp add: Encode_def Let_def split: sum.splits)

text \<open>
  C10: \<open>Encode\<close> writes the attributes of the instance and never reads them, and \<open>Decode\<close> is
  a static method (a function of its argument alone). So the result of \<open>Encode\<close> on a file is
  the same on a fresh instance as on an instance that any sequence of earlier calls of
  \<open>Encode\<close> has written to, whatever files those calls encoded.
\<close>

theorem Encode_independent_of_history:
  "fst (Encode divf (fold (\<lambda>earlier self. snd (Encode divf self earlier)) history self) file)
   = fst (Encode divf HuffmanCode_init file)"
  by (rule Encode_result_independent)

end
